theory Spec2Isabelle
  imports Main "HOL-Library.Sublist" "HOL-Library.AList"
begin

section \<open>The Kotlin extractor build script\<close>

text \<open>
  A shallow embedding of \<^verbatim>\<open>java/kotlin-extractor/build.py\<close>. Python strings are
  HOL strings, the file system is an association list from path texts to nodes, the
  script's prints and the processes it starts are recorded in a state record, and every
  \<^verbatim>\<open>raise\<close> and \<^verbatim>\<open>sys.exit\<close> is an error value that is returned together with
  the state reached so far.
\<close>

subsection \<open>Python strings\<close>

definition squote :: char where
  "squote = CHR 0x27"

definition dquote :: char where
  "dquote = CHR 0x22"

definition backslash :: char where
  "backslash = CHR 0x5C"

definition newline :: char where
  "newline = CHR 0x0A"

definition carriage_return :: char where
  "carriage_return = CHR 0x0D"

text \<open>
  \<^verbatim>\<open>s.replace(old, new)\<close>: every occurrence of \<open>old\<close>, scanning from the left and
  continuing behind each replaced occurrence. With an empty \<open>old\<close> Python puts \<open>new\<close>
  before every character and at the end.
\<close>

fun py_replace :: "string \<Rightarrow> string \<Rightarrow> string \<Rightarrow> string" where
  "py_replace old new [] = (if old = [] then new else [])"
| "py_replace old new (c # cs) =
     (if old = [] then new @ c # py_replace old new cs
      else if prefix old (c # cs) then new @ py_replace old new (drop (length old) (c # cs))
      else c # py_replace old new cs)"

text \<open>\<^verbatim>\<open>sep.join(xs)\<close>.\<close>

fun join :: "string \<Rightarrow> string list \<Rightarrow> string" where
  "join sep [] = []"
| "join sep [x] = x"
| "join sep (x # y # ys) = x @ sep @ join sep (y # ys)"

text \<open>
  \<^verbatim>\<open>shlex.quote\<close> and \<^verbatim>\<open>shlex.join\<close>: a word of safe characters only is left as it
  is, the empty word becomes two quotes, anything else is wrapped in single quotes with
  every single quote inside written as \<^verbatim>\<open>'"'"'\<close>.
\<close>

definition shlex_safe :: "char \<Rightarrow> bool" where
  "shlex_safe c \<longleftrightarrow>
     c \<in> set ''abcdefghijklmnopqrstuvwxyzABCDEFGHIJKLMNOPQRSTUVWXYZ0123456789_@%+=:,./-''"

definition shlex_quote :: "string \<Rightarrow> string" where
  "shlex_quote s =
     (if s = [] then [squote, squote]
      else if list_all shlex_safe s then s
      else [squote] @ py_replace [squote] [squote, dquote, squote, dquote, squote] s @ [squote])"

definition shlex_join :: "string list \<Rightarrow> string" where
  "shlex_join cmd = join '' '' (map shlex_quote cmd)"

text \<open>\<^verbatim>\<open>s.split(c)\<close> for a single character \<open>c\<close>.\<close>

fun split_on :: "char \<Rightarrow> string \<Rightarrow> string list" where
  "split_on c [] = [[]]"
| "split_on c (x # xs) =
     (if x = c then [] # split_on c xs
      else (case split_on c xs of [] \<Rightarrow> [[x]] | y # ys \<Rightarrow> (x # y) # ys))"

subsection \<open>The file system\<close>

text \<open>
  A file system is a list of entries, each the text of a path (relative to the working
  directory, parts separated by \<^verbatim>\<open>/\<close>) with its node: a regular file with its content,
  or a directory. An entry is read with \<open>map_of\<close>. The working directory itself has no
  entry and always exists. Paths are compared as texts: symbolic links, \<^verbatim>\<open>.\<close> and
  \<^verbatim>\<open>..\<close> parts and permissions are outside the model, and file names are POSIX ones.
\<close>

datatype node = File string | Dir

type_synonym fsys = "(string \<times> node) list"

definition lookup :: "fsys \<Rightarrow> string \<Rightarrow> node option" where
  "lookup f p = map_of f p"

definition path_exists :: "fsys \<Rightarrow> string \<Rightarrow> bool" where
  "path_exists f p \<longleftrightarrow> lookup f p \<noteq> None"

definition isdir :: "fsys \<Rightarrow> string \<Rightarrow> bool" where
  "isdir f p \<longleftrightarrow> lookup f p = Some Dir"

definition isfile :: "fsys \<Rightarrow> string \<Rightarrow> bool" where
  "isfile f p \<longleftrightarrow> (case lookup f p of Some (File c) \<Rightarrow> True | _ \<Rightarrow> False)"

definition under :: "string \<Rightarrow> string \<Rightarrow> bool" where
  "under d p \<longleftrightarrow> prefix (d @ ''/'') p"

definition relative_to :: "string \<Rightarrow> string \<Rightarrow> string" where
  "relative_to d p = drop (length d + 1) p"

definition dirname :: "string \<Rightarrow> string" where
  "dirname p =
     (if CHR ''/'' \<in> set p then rev (tl (dropWhile (\<lambda>c. c \<noteq> CHR ''/'') (rev p))) else [])"

definition basename :: "string \<Rightarrow> string" where
  "basename p = rev (takeWhile (\<lambda>c. c \<noteq> CHR ''/'') (rev p))"

text \<open>The proper ancestors of a path, the outermost first: \<open>a\<close> and \<open>a/b\<close> for \<open>a/b/c\<close>.\<close>

fun ancestors_from :: "string \<Rightarrow> string \<Rightarrow> string list" where
  "ancestors_from pre [] = []"
| "ancestors_from pre (c # cs) =
     (if c = CHR ''/'' \<and> pre \<noteq> [] then pre # ancestors_from (pre @ [c]) cs
      else ancestors_from (pre @ [c]) cs)"

definition ancestors :: "string \<Rightarrow> string list" where
  "ancestors p = ancestors_from [] p"

datatype cmdline = CmdList "string list" | CmdStr string

datatype error =
    SystemExit int
  | CalledProcessError int cmdline "string option" "string option"
  | PyException string
  | FileExistsError string
  | FileNotFoundError string
  | NotADirectoryError string
  | IsADirectoryError string
  | ShutilError "string list"
  | UnicodeDecodeError string
  | StartError string
  | RegistryError string

text \<open>
  \<^verbatim>\<open>open(p, 'w')\<close> creates or truncates the file. It fails with
  \<^verbatim>\<open>NotADirectoryError\<close> where a regular file lies on the way to \<open>p\<close>, with
  \<^verbatim>\<open>IsADirectoryError\<close> on a directory and with \<^verbatim>\<open>FileNotFoundError\<close> where the parent
  directory is missing. \<^verbatim>\<open>f.write(s)\<close> appends to the open file.
\<close>

definition open_w :: "string \<Rightarrow> fsys \<Rightarrow> error + fsys" where
  "open_w p f =
     (if list_ex (isfile f) (ancestors p) then Inl (NotADirectoryError p)
      else if isdir f p then Inl (IsADirectoryError p)
      else if dirname p \<noteq> [] \<and> \<not> isdir f (dirname p) then Inl (FileNotFoundError p)
      else Inr (AList.update p (File []) f))"

definition fwrite :: "string \<Rightarrow> string \<Rightarrow> fsys \<Rightarrow> fsys" where
  "fwrite p s f =
     (case lookup f p of Some (File c) \<Rightarrow> AList.update p (File (c @ s)) f | _ \<Rightarrow> f)"

text \<open>
  \<^verbatim>\<open>open(p, 'r').read()\<close> reads the file as text. The content is decoded with the
  encoding of the locale, which raises \<^verbatim>\<open>UnicodeDecodeError\<close> on a content that is no
  text in that encoding: \<open>dec\<close> tells which contents are. In the text that is returned
  every line end, be it CR LF or a single CR, is a single LF (\<open>universal_newlines\<close>).
\<close>

fun universal_newlines :: "string \<Rightarrow> string" where
  "universal_newlines [] = []"
| "universal_newlines [c] = (if c = carriage_return then [newline] else [c])"
| "universal_newlines (c # d # cs) =
     (if c = carriage_return \<and> d = newline then newline # universal_newlines cs
      else if c = carriage_return then newline # universal_newlines (d # cs)
      else c # universal_newlines (d # cs))"

definition read_file :: "(string \<Rightarrow> bool) \<Rightarrow> string \<Rightarrow> fsys \<Rightarrow> error + string" where
  "read_file dec p f =
     (if list_ex (isfile f) (ancestors p) then Inl (NotADirectoryError p)
      else (case lookup f p of
          Some (File c) \<Rightarrow> if dec c then Inr (universal_newlines c) else Inl (UnicodeDecodeError p)
        | Some Dir \<Rightarrow> Inl (IsADirectoryError p)
        | None \<Rightarrow> Inl (FileNotFoundError p)))"

text \<open>
  \<^verbatim>\<open>os.makedirs(p, exist_ok=ok)\<close>: creates \<open>p\<close> and its missing ancestors. It raises
  when an ancestor is a regular file, and when \<open>p\<close> exists already, unless \<open>ok\<close> is set
  and \<open>p\<close> is a directory.
\<close>

definition makedirs :: "string \<Rightarrow> bool \<Rightarrow> fsys \<Rightarrow> error + fsys" where
  "makedirs p exist_ok f =
     (if list_ex (isfile f) (ancestors p) then Inl (NotADirectoryError p)
      else if path_exists f p then
        (if exist_ok \<and> isdir f p then Inr f else Inl (FileExistsError p))
      else Inr (f @ map (\<lambda>a. (a, Dir)) (filter (\<lambda>a. \<not> path_exists f a) (ancestors p) @ [p])))"

text \<open>\<^verbatim>\<open>shutil.rmtree(p)\<close>: removes the directory \<open>p\<close> and everything under it.\<close>

definition rmtree :: "string \<Rightarrow> fsys \<Rightarrow> error + fsys" where
  "rmtree p f =
     (case lookup f p of
        Some Dir \<Rightarrow> Inr (filter (\<lambda>(q, n). q \<noteq> p \<and> \<not> under p q) f)
      | Some (File c) \<Rightarrow> Inl (NotADirectoryError p)
      | None \<Rightarrow> Inl (FileNotFoundError p))"

text \<open>
  \<^verbatim>\<open>shutil.copytree(src, dst, dirs_exist_ok=ok)\<close>. After \<^verbatim>\<open>os.makedirs(dst, exist_ok=ok)\<close>
  every entry under \<open>src\<close> is copied to the same relative path under \<open>dst\<close>:
  \<^item> a directory is created there, which fails when a regular file has that path, and then
    nothing under that directory is copied;
  \<^item> a regular file replaces a regular file of that path; where the path is a directory,
    \<^verbatim>\<open>shutil.copy2\<close> copies the file into that directory under its own base name, which
    fails when that in turn is a directory.
  The failures are collected while the other entries are still copied, and raised
  together at the end as \<^verbatim>\<open>shutil.Error\<close>. \<open>copy_target\<close> gives where one entry is
  written, or \<open>None\<close> when it is not copied. The entries are written from the end of the
  listing, so that for a path listed twice the entry that \<open>map_of\<close> reads is the one
  copied; in a listing without repeated paths the order makes no difference.
\<close>

definition copy_target :: "fsys \<Rightarrow> string \<Rightarrow> string \<Rightarrow> string \<times> node \<Rightarrow> (string \<times> node) option" where
  "copy_target pre src dst e =
     (case e of (p, n) \<Rightarrow>
        let rel = relative_to src p; t = dst @ ''/'' @ rel in
        if list_ex (\<lambda>a. isfile pre (dst @ ''/'' @ a)) (ancestors rel) then None
        else (case n of
            Dir \<Rightarrow> if isfile pre t then None else Some (t, Dir)
          | File c \<Rightarrow>
              if isdir pre t then
                (let t' = t @ ''/'' @ basename rel in
                 if isdir pre t' then None else Some (t', File c))
              else Some (t, File c)))"

definition put_entry :: "(string \<times> node) option \<Rightarrow> fsys \<Rightarrow> fsys" where
  "put_entry r f = (case r of None \<Rightarrow> f | Some (t, n) \<Rightarrow> AList.update t n f)"

definition copytree :: "string \<Rightarrow> string \<Rightarrow> bool \<Rightarrow> fsys \<Rightarrow> (error + unit) \<times> fsys" where
  "copytree src dst dirs_exist_ok f =
     (case lookup f src of
        None \<Rightarrow> (Inl (FileNotFoundError src), f)
      | Some (File c) \<Rightarrow> (Inl (NotADirectoryError src), f)
      | Some Dir \<Rightarrow>
          (case makedirs dst dirs_exist_ok f of
             Inl e \<Rightarrow> (Inl e, f)
           | Inr f1 \<Rightarrow>
               let es = filter (\<lambda>(p, n). under src p) f;
                   f2 = foldr (\<lambda>e. put_entry (copy_target f1 src dst e)) es f1;
                   failed = filter (\<lambda>e. copy_target f1 src dst e = None) es
               in if failed = [] then (Inr (), f2) else (Inl (ShutilError (map fst failed)), f2)))"

text \<open>
  \<^verbatim>\<open>glob.glob(path + '/**/*' + ext, recursive=True)\<close>. The whole argument is a pattern,
  so a \<open>path\<close> that holds one of the characters \<^verbatim>\<open>*\<close>, \<^verbatim>\<open>?\<close> and \<^verbatim>\<open>[\<close>
  (\<^verbatim>\<open>glob.has_magic\<close>) is not taken as the name of a directory but matched against the
  names that exist: what is found then is left to the library, \<open>pat\<close> stands for it.
  A \<open>path\<close> without these characters is taken as it is, and the result is the entries
  under it, at any depth, whose name ends with \<open>ext\<close>; an entry whose own name or one
  of whose directories under \<open>path\<close> starts with a dot is left out. An entry is listed
  whether it is a regular file or a directory.
\<close>

definition has_magic :: "string \<Rightarrow> bool" where
  "has_magic s \<longleftrightarrow> list_ex (\<lambda>c. c \<in> set ''*?['') s"

definition hidden :: "string \<Rightarrow> bool" where
  "hidden name \<longleftrightarrow> prefix ''.'' name"

definition visible :: "string \<Rightarrow> string \<Rightarrow> bool" where
  "visible path p \<longleftrightarrow> \<not> list_ex hidden (split_on CHR ''/'' (relative_to path p))"

definition glob_rec ::
  "(string \<Rightarrow> fsys \<Rightarrow> string list) \<Rightarrow> string \<Rightarrow> string \<Rightarrow> fsys \<Rightarrow> string list" where
  "glob_rec pat path ext f =
     (if has_magic path then pat (path @ ''/**/*'' @ ext) f
      else map fst (filter (\<lambda>(p, n). under path p \<and> visible path p \<and>
             suffix ext (last (split_on CHR ''/'' (relative_to path p)))) f))"

subsection \<open>State, environment and errors\<close>

text \<open>
  The state a run changes: the file system, the lines printed to standard output and to
  standard error, and the processes started through \<open>run_process\<close>, each with the
  argument list it was called with, the command line that was executed, the file system
  it was started on and the exit status.
\<close>

datatype call =
  Call (argv: "string list") (executed: cmdline) (started_on: fsys) (returncode: int)

record world =
  fs :: fsys
  out :: "string list"
  err :: "string list"
  trace :: "call list"

text \<open>
  What a started process does is not the script's: \<open>exec\<close> gives it, from the calls so
  far, the command line and the file system, as the exit status, the two output streams
  and the file system the process leaves behind, or as the error of a process that could
  not be started.
\<close>

datatype outcome = NotStarted error | Exited int string string fsys

record env =
  platform_system :: string
  pathsep :: string
  which_kotlinc :: "string option"
  getcwd :: string
  decodable :: "string \<Rightarrow> bool"
  glob_pattern :: "string \<Rightarrow> fsys \<Rightarrow> string list"
  exec :: "call list \<Rightarrow> cmdline \<Rightarrow> fsys \<Rightarrow> outcome"

text \<open>
  The module \<^verbatim>\<open>kotlin_plugin_versions\<close> is imported by the script and is not part of
  it: its version type, its lists and its functions are parameters.
\<close>

record 'v registry =
  version_string_to_version :: "string \<Rightarrow> error + 'v"
  many_versions :: "string list"
  many_versions_versions_asc :: "'v list"
  lessThanOrEqual :: "'v \<Rightarrow> 'v \<Rightarrow> bool"
  toString :: "'v \<Rightarrow> string"
  toLanguageVersionString :: "'v \<Rightarrow> string"
  get_single_version :: "error + string"

text \<open>The parsed command line (\<open>parse_args\<close>, lines 16 to 28).\<close>

record args =
  dependencies :: string
  many :: bool
  single_version :: "string option"
  single_version_embeddable :: bool

text \<open>The module-level variables \<open>kotlinc\<close>, \<open>javac\<close> and \<open>kotlin_dependency_folder\<close>.\<close>

record globals =
  kotlinc :: string
  javac :: string
  kotlin_dependency_folder :: string

type_synonym 'a prog = "world \<Rightarrow> (error + 'a) \<times> world"

definition ok :: "'a \<Rightarrow> 'a prog" where
  "ok x w = (Inr x, w)"

definition raise :: "error \<Rightarrow> 'a prog" where
  "raise e w = (Inl e, w)"

definition and_then :: "'a prog \<Rightarrow> ('a \<Rightarrow> 'b prog) \<Rightarrow> 'b prog" where
  "and_then m k w =
     (case m w of (r, w') \<Rightarrow> (case r of Inl e \<Rightarrow> (Inl e, w') | Inr x \<Rightarrow> k x w'))"

text \<open>How a sequence goes on from the result of its first part.\<close>

definition bind_result :: "(error + 'a) \<times> world \<Rightarrow> ('a \<Rightarrow> 'b prog) \<Rightarrow> (error + 'b) \<times> world" where
  "bind_result r k =
     (case r of (r', w') \<Rightarrow> (case r' of Inl e \<Rightarrow> (Inl e, w') | Inr x \<Rightarrow> k x w'))"

definition print_out :: "string \<Rightarrow> unit prog" where
  "print_out s w = (Inr (), w\<lparr>out := out w @ [s]\<rparr>)"

definition print_err :: "string \<Rightarrow> unit prog" where
  "print_err s w = (Inr (), w\<lparr>err := err w @ [s]\<rparr>)"

text \<open>A file-system call that changes nothing when it fails, and one that may.\<close>

definition fs_try :: "(fsys \<Rightarrow> error + fsys) \<Rightarrow> unit prog" where
  "fs_try g w = (case g (fs w) of Inl e \<Rightarrow> (Inl e, w) | Inr f \<Rightarrow> (Inr (), w\<lparr>fs := f\<rparr>))"

definition fs_run :: "(fsys \<Rightarrow> (error + 'a) \<times> fsys) \<Rightarrow> 'a prog" where
  "fs_run g w = (case g (fs w) of (r, f) \<Rightarrow> (r, w\<lparr>fs := f\<rparr>))"

definition fs_read :: "(fsys \<Rightarrow> error + 'a) \<Rightarrow> 'a prog" where
  "fs_read g w = (g (fs w), w)"

subsection \<open>The script\<close>

text \<open>\<open>is_windows\<close>, lines 34 to 40.\<close>

definition is_windows :: "env \<Rightarrow> bool" where
  "is_windows e \<longleftrightarrow>
     (if platform_system e = ''Windows'' then True
      else if prefix ''CYGWIN'' (platform_system e) then True
      else False)"

text \<open>\<open>quote_for_batch\<close>, lines 53 to 59.\<close>

definition quote_for_batch :: "string \<Rightarrow> error + string" where
  "quote_for_batch arg =
     (if CHR '';'' \<in> set arg \<or> CHR ''='' \<in> set arg then
        (if dquote \<in> set arg then Inl (PyException ''Need to quote something containing a quote'')
         else Inr ([dquote] @ arg @ [dquote]))
      else Inr arg)"

text \<open>\<^verbatim>\<open>map(quote_for_batch, cmd)\<close> as \<^verbatim>\<open>join\<close> consumes it: the first failure is raised.\<close>

fun map_quote_for_batch :: "string list \<Rightarrow> error + string list" where
  "map_quote_for_batch [] = Inr []"
| "map_quote_for_batch (a # as) =
     (case quote_for_batch a of
        Inl e \<Rightarrow> Inl e
      | Inr q \<Rightarrow> (case map_quote_for_batch as of Inl e \<Rightarrow> Inl e | Inr qs \<Rightarrow> Inr (q # qs)))"

text \<open>
  The \<^verbatim>\<open>try\<close> block of \<open>run_process\<close>, lines 67 to 81: \<^verbatim>\<open>subprocess.run\<close> with
  \<^verbatim>\<open>check=True\<close> raises \<^verbatim>\<open>CalledProcessError\<close> on a nonzero exit status; the handler
  prints the working directory, the command line and, when they were captured, the two
  output streams, and raises the error again. \<open>cmd0\<close> is the argument list the function
  was called with and \<open>cmd\<close> the variable \<open>cmd\<close> at that point, a text on Windows;
  \<open>shell_text\<close> is \<^verbatim>\<open>cmd if is_windows() else shlex.join(cmd)\<close>, as \<open>cmd\<close> is a text
  exactly on Windows.
\<close>

definition shell_text :: "cmdline \<Rightarrow> string" where
  "shell_text cmd = (case cmd of CmdStr s \<Rightarrow> s | CmdList l \<Rightarrow> shlex_join l)"

definition run_checked :: "env \<Rightarrow> string list \<Rightarrow> cmdline \<Rightarrow> bool \<Rightarrow> unit prog" where
  "run_checked e cmd0 cmd capture_output w =
     (case exec e (trace w) cmd (fs w) of
        NotStarted x \<Rightarrow> (Inl x, w)
      | Exited rc so se f \<Rightarrow>
          let w1 = w\<lparr>fs := f, trace := trace w @ [Call cmd0 cmd (fs w) rc]\<rparr> in
          if rc = 0 then (Inr (), w1)
          else
            and_then (print_err (''In: '' @ getcwd e)) (\<lambda>_.
            and_then (print_err (''Command failed: '' @ shell_text cmd)) (\<lambda>_.
            and_then (if capture_output then
               and_then (print_err (''stdout output:'' @ [newline] @ so)) (\<lambda>_.
                 print_err (''stderr output:'' @ [newline] @ se))
             else ok ()) (\<lambda>_.
            raise (CalledProcessError rc cmd
               (if capture_output then Some so else None)
               (if capture_output then Some se else None))))) w1)"

text \<open>\<open>run_process\<close>, lines 62 to 81.\<close>

definition run_process :: "env \<Rightarrow> string list \<Rightarrow> bool \<Rightarrow> unit prog" where
  "run_process e cmd capture_output =
     and_then (print_out (''Running command: '' @ shlex_join cmd)) (\<lambda>_.
     if is_windows e then
       (case map_quote_for_batch cmd of
          Inl x \<Rightarrow> raise x
        | Inr qs \<Rightarrow>
            and_then (print_out (''Converted to Windows command: '' @ join '' '' qs)) (\<lambda>_.
            run_checked e cmd (CmdStr (join '' '' qs)) capture_output))
     else run_checked e cmd (CmdList cmd) capture_output)"

text \<open>\<open>write_arg_file\<close>, lines 83 to 88; \<open>write_args\<close> is its loop.\<close>

fun write_args :: "string \<Rightarrow> string list \<Rightarrow> unit prog" where
  "write_args arg_file [] w = (Inr (), w)"
| "write_args arg_file (arg # as) w =
     (if squote \<in> set arg then (Inl (PyException (''Single quote in argument: '' @ arg)), w)
      else write_args arg_file as
        (w\<lparr>fs := fwrite arg_file
           ([squote] @ py_replace [backslash] ''/'' arg @ [squote] @ [newline]) (fs w)\<rparr>))"

definition write_arg_file :: "string \<Rightarrow> string list \<Rightarrow> unit prog" where
  "write_arg_file arg_file as =
     and_then (fs_try (open_w arg_file)) (\<lambda>_. write_args arg_file as)"

text \<open>
  \<open>compile_to_dir\<close>, lines 90 to 116; \<open>kotlin_args\<close> and \<open>java_args\<close> are its two
  argument lists.
\<close>

definition kotlin_args :: "'v registry \<Rightarrow> 'v \<Rightarrow> string \<Rightarrow> string \<Rightarrow> string list \<Rightarrow> string list" where
  "kotlin_args reg version classpath output srcs =
     [''-Werror'',
      ''-opt-in=kotlin.RequiresOptIn'',
      ''-opt-in=org.jetbrains.kotlin.ir.symbols.IrSymbolInternals'',
      ''-d'', output,
      ''-module-name'', ''codeql-kotlin-extractor'',
      ''-Xsuppress-version-warnings'',
      ''-language-version'', toLanguageVersionString reg version,
      ''-no-reflect'', ''-no-stdlib'',
      ''-jvm-target'', ''1.8'',
      ''-classpath'', classpath] @ srcs"

definition java_args :: "env \<Rightarrow> string \<Rightarrow> string \<Rightarrow> string \<Rightarrow> string list \<Rightarrow> string list" where
  "java_args e classpath java_classpath output srcs =
     [''-d'', output,
      ''-source'', ''8'', ''-target'', ''8'',
      ''-classpath'', join (pathsep e) [output, classpath, java_classpath]]
     @ filter (suffix ''.java'') srcs"

definition compile_to_dir ::
  "globals \<Rightarrow> env \<Rightarrow> 'v registry \<Rightarrow> string \<Rightarrow> string list \<Rightarrow> 'v \<Rightarrow> string \<Rightarrow> string \<Rightarrow> string
     \<Rightarrow> unit prog" where
  "compile_to_dir g e reg build_dir srcs version classpath java_classpath output =
     (let kotlin_arg_file = build_dir @ ''/kotlin.args'';
          java_arg_file = build_dir @ ''/java.args''
      in
      and_then (write_arg_file kotlin_arg_file (kotlin_args reg version classpath output srcs)) (\<lambda>_.
      and_then (run_process e [kotlinc g, ''-J-Xmx2G'', ''@'' @ kotlin_arg_file] False) (\<lambda>_.
      and_then (write_arg_file java_arg_file
                  (java_args e classpath java_classpath output srcs)) (\<lambda>_.
      run_process e [javac g, ''@'' @ java_arg_file] False))))"

text \<open>\<^verbatim>\<open>if os.path.exists(p): ...\<close>\<close>

definition when_exists :: "string \<Rightarrow> unit prog \<Rightarrow> unit prog" where
  "when_exists p m w = (if path_exists (fs w) p then m w else (Inr (), w))"

text \<open>\<open>compile_to_jar\<close>, lines 119 to 132.\<close>

definition jar_argv :: "string \<Rightarrow> string \<Rightarrow> string \<Rightarrow> string list" where
  "jar_argv output class_dir tmp_src_dir =
     [''jar'', ''cf'', output,
      ''-C'', class_dir, ''.'',
      ''-C'', tmp_src_dir @ ''/main/resources'', ''META-INF'',
      ''-C'', tmp_src_dir @ ''/main/resources'', ''com/github/codeql/extractor.name'']"

definition compile_to_jar ::
  "globals \<Rightarrow> env \<Rightarrow> 'v registry \<Rightarrow> string \<Rightarrow> string \<Rightarrow> string list \<Rightarrow> 'v \<Rightarrow> string \<Rightarrow> string
     \<Rightarrow> string \<Rightarrow> unit prog" where
  "compile_to_jar g e reg build_dir tmp_src_dir srcs version classpath java_classpath output =
     (let class_dir = build_dir @ ''/classes'' in
      and_then (when_exists class_dir (fs_try (rmtree class_dir))) (\<lambda>_.
      and_then (fs_try (makedirs class_dir False)) (\<lambda>_.
      and_then (compile_to_dir g e reg build_dir srcs version classpath java_classpath class_dir)
        (\<lambda>_.
      and_then (run_process e (jar_argv output class_dir tmp_src_dir) False) (\<lambda>_.
      fs_try (rmtree class_dir))))))"

text \<open>\<open>find_sources\<close>, lines 135 and 136.\<close>

definition find_sources :: "env \<Rightarrow> string \<Rightarrow> string list prog" where
  "find_sources e path w =
     (Inr (glob_rec (glob_pattern e) path ''.kt'' (fs w) @
           glob_rec (glob_pattern e) path ''.java'' (fs w)), w)"

text \<open>\<open>find_jar\<close>, lines 139 to 143.\<close>

definition find_jar :: "string \<Rightarrow> string \<Rightarrow> string prog" where
  "find_jar path base w =
     (let fn = path @ ''/'' @ base @ ''.jar'' in
      if \<not> isfile (fs w) fn then (Inl (PyException (''Cannot find jar file at '' @ fn)), w)
      else (Inr fn, w))"

text \<open>\<open>bases_to_classpath\<close>, lines 146 to 150; \<open>find_jars\<close> is its loop.\<close>

fun find_jars :: "string \<Rightarrow> string list \<Rightarrow> string list \<Rightarrow> string list prog" where
  "find_jars path [] result = ok result"
| "find_jars path (base # bases) result =
     and_then (find_jar path base) (\<lambda>fn. find_jars path bases (result @ [fn]))"

definition bases_to_classpath :: "env \<Rightarrow> string \<Rightarrow> string list \<Rightarrow> string prog" where
  "bases_to_classpath e path bases =
     and_then (find_jars path bases []) (\<lambda>result. ok (join (pathsep e) result))"

text \<open>\<open>transform_to_embeddable\<close>, lines 153 to 161.\<close>

definition write_file :: "string \<Rightarrow> string \<Rightarrow> unit prog" where
  "write_file p s =
     and_then (fs_try (open_w p)) (\<lambda>_ w. (Inr (), w\<lparr>fs := fwrite p s (fs w)\<rparr>))"

definition old_import :: string where
  "old_import = ''import com.intellij''"

definition new_import :: string where
  "new_import = ''import org.jetbrains.kotlin.com.intellij''"

fun transform_to_embeddable :: "env \<Rightarrow> string list \<Rightarrow> unit prog" where
  "transform_to_embeddable e [] = ok ()"
| "transform_to_embeddable e (src # srcs) =
     and_then (fs_read (read_file (decodable e) src)) (\<lambda>content.
     and_then (write_file src (py_replace old_import new_import content)) (\<lambda>_.
     transform_to_embeddable e srcs))"

text \<open>
  \<open>compile\<close>, lines 164 to 201, in four parts: \<open>stage_sources\<close> is lines 168 to 180,
  \<open>overlay_loop\<close> the loop of lines 184 to 190, \<open>overlay_versions\<close> lines 182 to 193,
  and \<open>compile\<close> puts them between the class paths and the rest. The parameter
  \<open>transform\<close> is the function the callers pass as \<^verbatim>\<open>transform_to_embeddable\<close>.
\<close>

definition this_version_dir :: "string \<Rightarrow> string" where
  "this_version_dir tmp_src_dir = tmp_src_dir @ ''/main/kotlin/utils/this_version''"

definition versions_dir :: "string \<Rightarrow> string" where
  "versions_dir tmp_src_dir = tmp_src_dir @ ''/main/kotlin/utils/versions''"

definition version_dir :: "'v registry \<Rightarrow> string \<Rightarrow> 'v \<Rightarrow> string" where
  "version_dir reg tmp_src_dir a_version =
     tmp_src_dir @ ''/main/kotlin/utils/versions/v_'' @ py_replace ''.'' ''_'' (toString reg a_version)"

definition stage_sources :: "string \<Rightarrow> string \<Rightarrow> string prog" where
  "stage_sources build_dir output =
     (let tmp_src_dir = build_dir @ ''/temp_src'' in
      and_then (when_exists tmp_src_dir (fs_try (rmtree tmp_src_dir))) (\<lambda>_.
      and_then (fs_run (copytree ''src'' tmp_src_dir False)) (\<lambda>_.
      let include_version_folder = this_version_dir tmp_src_dir in
      and_then (fs_try (makedirs include_version_folder False)) (\<lambda>_.
      let resource_dir = tmp_src_dir @ ''/main/resources/com/github/codeql'' in
      and_then (fs_try (makedirs resource_dir False)) (\<lambda>_.
      and_then (write_file (resource_dir @ ''/extractor.name'') output) (\<lambda>_.
      ok tmp_src_dir))))))"

fun overlay_loop :: "'v registry \<Rightarrow> string \<Rightarrow> 'v \<Rightarrow> 'v list \<Rightarrow> unit prog" where
  "overlay_loop reg tmp_src_dir version [] = ok ()"
| "overlay_loop reg tmp_src_dir version (a_version # rest) =
     (if lessThanOrEqual reg a_version version then
        (let d = version_dir reg tmp_src_dir a_version in
         and_then (when_exists d (fs_run (copytree d (this_version_dir tmp_src_dir) True))) (\<lambda>_.
         overlay_loop reg tmp_src_dir version rest))
      else overlay_loop reg tmp_src_dir version rest)"

definition overlay_versions :: "'v registry \<Rightarrow> string \<Rightarrow> string \<Rightarrow> 'v prog" where
  "overlay_versions reg tmp_src_dir version_str =
     and_then (\<lambda>w. (version_string_to_version reg version_str, w)) (\<lambda>version.
     and_then (overlay_loop reg tmp_src_dir version (many_versions_versions_asc reg)) (\<lambda>_.
     and_then (fs_try (rmtree (versions_dir tmp_src_dir))) (\<lambda>_.
     ok version)))"

definition compile ::
  "globals \<Rightarrow> env \<Rightarrow> 'v registry \<Rightarrow> string list \<Rightarrow> string list \<Rightarrow> string
     \<Rightarrow> (string list \<Rightarrow> unit prog) \<Rightarrow> string \<Rightarrow> string \<Rightarrow> string \<Rightarrow> unit prog" where
  "compile g e reg jars java_jars dependency_folder transform output build_dir version_str =
     and_then (bases_to_classpath e dependency_folder jars) (\<lambda>classpath.
     and_then (bases_to_classpath e dependency_folder java_jars) (\<lambda>java_classpath.
     and_then (stage_sources build_dir output) (\<lambda>tmp_src_dir.
     and_then (overlay_versions reg tmp_src_dir version_str) (\<lambda>version.
     and_then (find_sources e tmp_src_dir) (\<lambda>srcs.
     and_then (transform srcs) (\<lambda>_.
     and_then (compile_to_jar g e reg build_dir tmp_src_dir srcs version classpath
                 java_classpath output) (\<lambda>_.
     fs_try (rmtree tmp_src_dir))))))))"

text \<open>
  \<open>compile_embeddable\<close> and \<open>compile_standalone\<close>, lines 204 to 221; \<open>no_transform\<close>
  is \<^verbatim>\<open>lambda srcs: None\<close>.
\<close>

definition compile_embeddable :: "globals \<Rightarrow> env \<Rightarrow> 'v registry \<Rightarrow> string \<Rightarrow> unit prog" where
  "compile_embeddable g e reg version =
     compile g e reg
       [''kotlin-stdlib-'' @ version, ''kotlin-compiler-embeddable-'' @ version]
       [''kotlin-stdlib-'' @ version]
       (kotlin_dependency_folder g)
       (transform_to_embeddable e)
       (''codeql-extractor-kotlin-embeddable-'' @ version @ ''.jar'')
       (''build_embeddable_'' @ version)
       version"

definition no_transform :: "string list \<Rightarrow> unit prog" where
  "no_transform = (\<lambda>srcs. ok ())"

definition compile_standalone :: "globals \<Rightarrow> env \<Rightarrow> 'v registry \<Rightarrow> string \<Rightarrow> unit prog" where
  "compile_standalone g e reg version =
     compile g e reg
       [''kotlin-stdlib-'' @ version, ''kotlin-compiler-'' @ version]
       [''kotlin-stdlib-'' @ version]
       (kotlin_dependency_folder g)
       no_transform
       (''codeql-extractor-kotlin-standalone-'' @ version @ ''.jar'')
       (''build_standalone_'' @ version)
       version"

text \<open>
  The module body: the search for \<open>kotlinc\<close> (lines 44 to 47), the module-level
  variables (lines 49 and 50) and the dispatch on the arguments (lines 224 to 237).
  \<open>compile_many\<close> is the loop of lines 233 to 235. An option that was not given is
  \<open>None\<close>, and Python takes \<open>None\<close> and the empty string alike as false.
\<close>

fun compile_many :: "globals \<Rightarrow> env \<Rightarrow> 'v registry \<Rightarrow> string list \<Rightarrow> unit prog" where
  "compile_many g e reg [] = ok ()"
| "compile_many g e reg (version # versions) =
     and_then (compile_standalone g e reg version) (\<lambda>_.
     and_then (compile_embeddable g e reg version) (\<lambda>_.
     compile_many g e reg versions))"

definition truthy :: "string option \<Rightarrow> bool" where
  "truthy s \<longleftrightarrow> (case s of None \<Rightarrow> False | Some v \<Rightarrow> v \<noteq> [])"

definition main :: "env \<Rightarrow> 'v registry \<Rightarrow> args \<Rightarrow> unit prog" where
  "main e reg a =
     (case which_kotlinc e of
        None \<Rightarrow>
          and_then
            (print_err ''Cannot build the Kotlin extractor: no kotlinc found on your PATH'')
            (\<lambda>_. raise (SystemExit 1))
      | Some k \<Rightarrow>
          (let g = \<lparr>kotlinc = k, javac = ''javac'', kotlin_dependency_folder = dependencies a\<rparr> in
           if truthy (single_version a) then
             (if single_version_embeddable a = True then
                compile_embeddable g e reg (the (single_version a))
              else compile_standalone g e reg (the (single_version a)))
           else if single_version_embeddable a = True then
             and_then (print_err ''--single-version-embeddable requires --single-version'')
               (\<lambda>_. raise (SystemExit 1))
           else if many a then compile_many g e reg (many_versions reg)
           else and_then (\<lambda>w. (get_single_version reg, w)) (compile_standalone g e reg)))"

subsection \<open>What the claims speak of\<close>

text \<open>
  The line \<open>write_arg_file\<close> writes for one argument, and the text of a whole argument
  file.
\<close>

definition arg_line :: "string \<Rightarrow> string" where
  "arg_line a = [squote] @ py_replace [backslash] ''/'' a @ [squote] @ [newline]"

definition arg_lines :: "string list \<Rightarrow> string" where
  "arg_lines as = concat (map arg_line as)"

definition unquoted :: "string \<Rightarrow> bool" where
  "unquoted a \<longleftrightarrow> squote \<notin> set a"


text \<open>The two packaging kinds, the archive and the build directory of a build target.\<close>

datatype kind = Standalone | Embeddable

definition kind_name :: "kind \<Rightarrow> string" where
  "kind_name k = (case k of Standalone \<Rightarrow> ''standalone'' | Embeddable \<Rightarrow> ''embeddable'')"

definition archive_name :: "kind \<Rightarrow> string \<Rightarrow> string" where
  "archive_name k version = ''codeql-extractor-kotlin-'' @ kind_name k @ ''-'' @ version @ ''.jar''"

definition build_dir_of :: "kind \<Rightarrow> string \<Rightarrow> string" where
  "build_dir_of k version = ''build_'' @ kind_name k @ ''_'' @ version"

text \<open>
  The argument lists of the three processes one build target starts: the Kotlin
  compiler, the Java compiler and the archiver.
\<close>

definition target_argvs :: "string \<Rightarrow> string \<Rightarrow> string \<Rightarrow> string \<Rightarrow> string list list" where
  "target_argvs kc jc output build_dir =
     [kc # ''-J-Xmx2G'' # (''@'' @ build_dir @ ''/kotlin.args'') # [],
      jc # (''@'' @ build_dir @ ''/java.args'') # [],
      jar_argv output (build_dir @ ''/classes'') (build_dir @ ''/temp_src'')]"

definition build_argvs :: "string \<Rightarrow> kind \<Rightarrow> string \<Rightarrow> string list list" where
  "build_argvs kc k version =
     target_argvs kc ''javac'' (archive_name k version) (build_dir_of k version)"

text \<open>A process of the run has failed: some call in the trace has a nonzero exit status.\<close>

definition failed :: "world \<Rightarrow> bool" where
  "failed w \<longleftrightarrow> list_ex (\<lambda>c. returncode c \<noteq> 0) (trace w)"

text \<open>
  What \<open>run_process\<close> prints to standard error for a failed process, and the error a
  result carries.
\<close>

definition failure_report :: "env \<Rightarrow> cmdline \<Rightarrow> bool \<Rightarrow> string \<Rightarrow> string \<Rightarrow> string list" where
  "failure_report e c capture so se =
     [''In: '' @ getcwd e, ''Command failed: '' @ shell_text c] @
     (if capture then [''stdout output:'' @ [newline] @ so, ''stderr output:'' @ [newline] @ se]
      else [])"

definition raised :: "error + 'a \<Rightarrow> error option" where
  "raised r = (case r of Inl x \<Rightarrow> Some x | Inr y \<Rightarrow> None)"

text \<open>
  A run was aborted by a failed process: the failed call is the last of the trace and the
  only one with a nonzero status, the run ended with its \<^verbatim>\<open>CalledProcessError\<close>, the
  report is the last thing on standard error, and the file system is the one that process
  left behind.
\<close>

definition aborted :: "env \<Rightarrow> error option \<Rightarrow> world \<Rightarrow> bool" where
  "aborted e x w' \<longleftrightarrow>
     (\<exists>pre cmd0 c rc so se before capture.
        trace w' = pre @ [Call cmd0 c before rc] \<and> rc \<noteq> 0 \<and>
        list_all (\<lambda>d. returncode d = 0) pre \<and>
        exec e pre c before = Exited rc so se (fs w') \<and>
        x = Some (CalledProcessError rc c (if capture then Some so else None)
                    (if capture then Some se else None)) \<and>
        suffix (failure_report e c capture so se) (err w'))"

definition fail_stop :: "env \<Rightarrow> 'a prog \<Rightarrow> bool" where
  "fail_stop e m \<longleftrightarrow>
     (\<forall>w r w'. \<not> failed w \<longrightarrow> m w = (r, w') \<longrightarrow> failed w' \<longrightarrow> aborted e (raised r) w')"

text \<open>A part of the run that starts no process.\<close>

definition quiet :: "'a prog \<Rightarrow> bool" where
  "quiet m \<longleftrightarrow> (\<forall>w r w'. m w = (r, w') \<longrightarrow> trace w' = trace w)"

text \<open>
  A part of the run that, whenever it returns, has started the processes with the given
  argument lists, in this order, each of which exited with status 0, and no other.
\<close>

definition starts :: "string list list \<Rightarrow> 'a prog \<Rightarrow> bool" where
  "starts argvs m \<longleftrightarrow>
     (\<forall>w x w'. m w = (Inr x, w') \<longrightarrow>
        (\<exists>cs. trace w' = trace w @ cs \<and> map argv cs = argvs \<and>
              list_all (\<lambda>d. returncode d = 0) cs))"

text \<open>A part of the run never takes a started process back: the trace only grows.\<close>

definition grows :: "'a prog \<Rightarrow> bool" where
  "grows m \<longleftrightarrow> (\<forall>w r w'. m w = (r, w') \<longrightarrow> prefix (trace w) (trace w'))"



subsection \<open>A sample run\<close>

text \<open>
  A small source tree with the override folders of two versions, the dependency folder,
  a registry of these two versions, and an environment whose processes all succeed and
  leave the file system as it is.
\<close>

definition sample_fs :: fsys where
  "sample_fs =
     [(''d'', Dir),
      (''d/kotlin-stdlib-2.jar'', File ''s''),
      (''d/kotlin-compiler-2.jar'', File ''c''),
      (''d/kotlin-compiler-embeddable-2.jar'', File ''e''),
      (''src'', Dir),
      (''src/main'', Dir),
      (''src/main/kotlin'', Dir),
      (''src/main/kotlin/utils'', Dir),
      (''src/main/kotlin/utils/versions'', Dir),
      (''src/main/kotlin/utils/versions/v_1'', Dir),
      (''src/main/kotlin/utils/versions/v_1/A.kt'', File ''import com.intellij.psi''),
      (''src/main/kotlin/utils/versions/v_2'', Dir),
      (''src/main/kotlin/utils/versions/v_2/A.kt'', File ''import com.intellij.lang''),
      (''src/main/kotlin/utils/versions/v_3'', Dir),
      (''src/main/kotlin/utils/versions/v_3/A.kt'', File ''three'')]"

definition sample_world :: world where
  "sample_world = \<lparr>fs = sample_fs, out = [], err = [], trace = []\<rparr>"

definition sample_env :: env where
  "sample_env =
     \<lparr>platform_system = ''Linux'', pathsep = '':'', which_kotlinc = Some ''kotlinc'',
      getcwd = ''/repo'', decodable = (\<lambda>c. True), glob_pattern = (\<lambda>p f. []),
      exec = (\<lambda>h c f. Exited 0 [] [] f)\<rparr>"

definition sample_registry :: "nat registry" where
  "sample_registry =
     \<lparr>version_string_to_version =
        (\<lambda>s. if s = ''1'' then Inr 1 else if s = ''2'' then Inr 2 else if s = ''3'' then Inr 3
              else Inl (RegistryError s)),
      many_versions = [''2''],
      many_versions_versions_asc = [1, 2, 3],
      lessThanOrEqual = (\<le>),
      toString = (\<lambda>v. if v = 1 then ''1'' else if v = 2 then ''2'' else ''3''),
      toLanguageVersionString = (\<lambda>v. ''1.9''),
      get_single_version = Inr ''2''\<rparr>"

definition sample_args :: args where
  "sample_args =
     \<lparr>dependencies = ''d'', many = False, single_version = None,
      single_version_embeddable = False\<rparr>"



















section \<open>Properties\<close>

subsection \<open>Sequencing\<close>

lemma and_then_Inr: "m w = (Inr x, w1) \<Longrightarrow> and_then m k w = k x w1"
  by (simp add: and_then_def)

lemma and_then_Inl: "m w = (Inl e, w1) \<Longrightarrow> and_then m k w = (Inl e, w1)"
  by (simp add: and_then_def)

lemma and_then_InrD:
  "and_then m k w = (Inr y, w') \<Longrightarrow> \<exists>x w1. m w = (Inr x, w1) \<and> k x w1 = (Inr y, w')"
  by (auto simp: and_then_def split: prod.splits sum.splits)

lemma and_then_cases:
  "(\<exists>e w1. m w = (Inl e, w1) \<and> and_then m k w = (Inl e, w1)) \<or>
   (\<exists>x w1. m w = (Inr x, w1) \<and> and_then m k w = k x w1)"
  by (cases "m w"; cases "fst (m w)") (auto simp: and_then_def)

subsection \<open>The dispatch\<close>

lemma main_no_kotlinc:
  "which_kotlinc e = None \<Longrightarrow>
   main e reg a w =
     (Inl (SystemExit 1),
      w\<lparr>err := err w @ [''Cannot build the Kotlin extractor: no kotlinc found on your PATH'']\<rparr>)"
  by (simp add: main_def and_then_def print_err_def raise_def)

lemma main_usage:
  "which_kotlinc e = Some k \<Longrightarrow> \<not> truthy (single_version a) \<Longrightarrow> single_version_embeddable a \<Longrightarrow>
   main e reg a w =
     (Inl (SystemExit 1),
      w\<lparr>err := err w @ [''--single-version-embeddable requires --single-version'']\<rparr>)"
  by (simp add: main_def and_then_def print_err_def raise_def)

subsection \<open>Argument files\<close>

lemma py_replace_char:
  "py_replace [a] [b] s = map (\<lambda>c. if c = a then b else c) s"
  by (induction s) auto

lemma write_args_Cons:
  "write_args f (a # as) w =
     (if unquoted a then write_args f as (w\<lparr>fs := fwrite f (arg_line a) (fs w)\<rparr>)
      else (Inl (PyException (''Single quote in argument: '' @ a)), w))"
  by (simp add: unquoted_def arg_line_def)

declare write_args.simps(2) [simp del]

lemma fwrite_file:
  "lookup f p = Some (File c) \<Longrightarrow> fwrite p s f = AList.update p (File (c @ s)) f"
  by (simp add: fwrite_def)

lemma lookup_update: "lookup (AList.update p n f) q = (if q = p then Some n else lookup f q)"
  by (simp add: lookup_def AList.update_conv')

lemma write_args_eq:
  "lookup (fs w) f = Some (File c) \<Longrightarrow>
   write_args f as w =
     (if list_all unquoted as then
        (Inr (), w\<lparr>fs := AList.update f (File (c @ arg_lines as)) (fs w)\<rparr>)
      else
        (Inl (PyException (''Single quote in argument: '' @ hd (dropWhile unquoted as))),
         w\<lparr>fs := AList.update f (File (c @ arg_lines (takeWhile unquoted as))) (fs w)\<rparr>))"
proof (induction as arbitrary: w c)
  case Nil
  then show ?case
    by (simp add: arg_lines_def lookup_def AList.update_triv)
next
  case (Cons a as)
  show ?case
  proof (cases "unquoted a")
    case False
    have "write_args f (a # as) w =
        (Inl (PyException (''Single quote in argument: '' @ a)), w)"
      using False by (simp add: write_args_Cons)
    with False Cons.prems show ?thesis
      by (simp add: arg_lines_def lookup_def AList.update_triv)
  next
    case True
    let ?w = "w\<lparr>fs := fwrite f (arg_line a) (fs w)\<rparr>"
    have fw: "fwrite f (arg_line a) (fs w) = AList.update f (File (c @ arg_line a)) (fs w)"
      using Cons.prems by (rule fwrite_file)
    have lk: "lookup (fs ?w) f = Some (File (c @ arg_line a))"
      by (simp add: fw lookup_update)
    have step: "write_args f (a # as) w = write_args f as ?w"
      using True by (simp add: write_args_Cons)

    show ?thesis
      unfolding step Cons.IH [OF lk] using True
      by (simp add: fw arg_lines_def AList.update_last)
  qed
qed

lemma open_w_lookup: "open_w p f = Inr f1 \<Longrightarrow> lookup f1 p = Some (File [])"
  by (auto simp: open_w_def lookup_update split: if_splits)

lemma write_arg_file_eq:
  "write_arg_file arg_file as w =
     (case open_w arg_file (fs w) of
        Inl e \<Rightarrow> (Inl e, w)
      | Inr f1 \<Rightarrow>
          if list_all unquoted as then
            (Inr (), w\<lparr>fs := AList.update arg_file (File (arg_lines as)) f1\<rparr>)
          else
            (Inl (PyException (''Single quote in argument: '' @ hd (dropWhile unquoted as))),
             w\<lparr>fs := AList.update arg_file (File (arg_lines (takeWhile unquoted as))) f1\<rparr>))"
proof (cases "open_w arg_file (fs w)")
  case (Inl e)
  then show ?thesis
    by (simp add: write_arg_file_def and_then_def fs_try_def)
next
  case (Inr f1)
  have lk: "lookup (fs (w\<lparr>fs := f1\<rparr>)) arg_file = Some (File [])"
    using Inr by (simp add: open_w_lookup)
  show ?thesis
    using Inr write_args_eq [OF lk, of as]
    by (simp add: write_arg_file_def and_then_def fs_try_def)
qed

lemma arg_line_no_backslash: "backslash \<notin> set (arg_line a)"
  by (auto simp: arg_line_def py_replace_char backslash_def squote_def newline_def)

lemma arg_lines_no_backslash: "backslash \<notin> set (arg_lines as)"
  by (auto simp: arg_lines_def arg_line_no_backslash)

subsection \<open>Replacing the import prefix\<close>


lemma py_replace_other:
  "old \<noteq> [] \<Longrightarrow> \<not> prefix old (c # cs) \<Longrightarrow>
   py_replace old new (c # cs) = c # py_replace old new cs"
  by simp
















subsection \<open>The embeddable transform\<close>

lemma open_w_Inr: "open_w p f = Inr f1 \<Longrightarrow> f1 = AList.update p (File []) f"
  by (auto simp: open_w_def split: if_splits)

lemma write_file_eq:
  "write_file p s w =
     (case open_w p (fs w) of
        Inl e \<Rightarrow> (Inl e, w)
      | Inr f1 \<Rightarrow> (Inr (), w\<lparr>fs := AList.update p (File s) (fs w)\<rparr>))"
proof (cases "open_w p (fs w)")
  case (Inl e)
  then show ?thesis
    by (simp add: write_file_def and_then_def fs_try_def)
next
  case (Inr f1)
  have "fwrite p s f1 = AList.update p (File ([] @ s)) f1"
    using open_w_lookup [OF Inr] by (rule fwrite_file)
  then show ?thesis
    using Inr open_w_Inr [OF Inr]
    by (simp add: write_file_def and_then_def fs_try_def AList.update_last)
qed








subsection \<open>Parts of the run that start no process\<close>

lemma quietI: "(\<And>w r w'. m w = (r, w') \<Longrightarrow> trace w' = trace w) \<Longrightarrow> quiet m"
  by (simp add: quiet_def)

lemma quietD: "quiet m \<Longrightarrow> m w = (r, w') \<Longrightarrow> trace w' = trace w"
  by (simp add: quiet_def)

lemma quiet_ok: "quiet (ok x)"
  by (simp add: quiet_def ok_def)

lemma quiet_raise: "quiet (raise x)"
  by (simp add: quiet_def raise_def)

lemma quiet_print_out: "quiet (print_out s)"
  by (auto simp: quiet_def print_out_def)

lemma quiet_print_err: "quiet (print_err s)"
  by (auto simp: quiet_def print_err_def)

lemma quiet_fs_try: "quiet (fs_try g)"
  by (auto simp: quiet_def fs_try_def split: sum.splits)

lemma quiet_fs_run: "quiet (fs_run g)"
  by (auto simp: quiet_def fs_run_def split: prod.splits)

lemma quiet_fs_read: "quiet (fs_read g)"
  by (auto simp: quiet_def fs_read_def)

lemma quiet_pure: "quiet (\<lambda>w. (r, w))"
  by (simp add: quiet_def)

lemma quiet_and_then: "quiet m \<Longrightarrow> (\<And>x. quiet (k x)) \<Longrightarrow> quiet (and_then m k)"
proof (rule quietI)
  fix w r w'
  assume m: "quiet m" and k: "\<And>x. quiet (k x)" and run: "and_then m k w = (r, w')"
  from and_then_cases [of m w k] show "trace w' = trace w"
  proof (elim disjE exE conjE)
    fix x w1
    assume "m w = (Inl x, w1)" and "and_then m k w = (Inl x, w1)"
    with run m show ?thesis by (auto dest: quietD)
  next
    fix x w1
    assume 1: "m w = (Inr x, w1)" and "and_then m k w = k x w1"
    with run have "k x w1 = (r, w')" by simp
    with k have "trace w' = trace w1" by (rule quietD)
    with m 1 show ?thesis by (auto dest: quietD)
  qed
qed

lemma quiet_when_exists: "quiet m \<Longrightarrow> quiet (when_exists p m)"
  by (auto simp: quiet_def when_exists_def split: if_splits)

lemma quiet_write_arg_file: "quiet (write_arg_file f as)"
  by (auto simp: quiet_def write_arg_file_eq split: sum.splits if_splits)

lemma quiet_write_file: "quiet (write_file p s)"
  by (auto simp: quiet_def write_file_eq split: sum.splits)

lemma quiet_find_jar: "quiet (find_jar path base)"
  by (auto simp: quiet_def find_jar_def Let_def split: if_splits)

lemma quiet_find_jars: "quiet (find_jars path bases result)"
  by (induction bases arbitrary: result) (simp_all add: quiet_ok quiet_and_then quiet_find_jar)

lemma quiet_bases_to_classpath: "quiet (bases_to_classpath e path bases)"
  by (simp add: bases_to_classpath_def quiet_and_then quiet_find_jars quiet_ok)

lemma quiet_transform_to_embeddable: "quiet (transform_to_embeddable e srcs)"
  by (induction srcs) (simp_all add: quiet_ok quiet_and_then quiet_fs_read quiet_write_file)

lemma quiet_no_transform: "quiet (no_transform srcs)"
  by (simp add: no_transform_def quiet_ok)

lemma quiet_find_sources: "quiet (find_sources e path)"
  by (auto simp: quiet_def find_sources_def)

lemma quiet_stage_sources: "quiet (stage_sources build_dir output)"
  by (simp add: stage_sources_def Let_def quiet_and_then quiet_when_exists quiet_fs_try
      quiet_fs_run quiet_write_file quiet_ok)

lemma quiet_overlay_loop: "quiet (overlay_loop reg tmp version vs)"
  by (induction vs)
    (simp_all add: Let_def quiet_ok quiet_and_then quiet_when_exists quiet_fs_run)

lemma quiet_overlay_versions: "quiet (overlay_versions reg tmp version_str)"
  by (simp add: overlay_versions_def quiet_and_then quiet_pure quiet_overlay_loop quiet_fs_try
      quiet_ok)

subsection \<open>Running a process\<close>

lemma run_checked_eq:
  "run_checked e cmd0 c capture w =
     (case exec e (trace w) c (fs w) of
        NotStarted x \<Rightarrow> (Inl x, w)
      | Exited rc so se f \<Rightarrow>
          if rc = 0 then (Inr (), w\<lparr>fs := f, trace := trace w @ [Call cmd0 c (fs w) rc]\<rparr>)
          else
            (Inl (CalledProcessError rc c (if capture then Some so else None)
                    (if capture then Some se else None)),
             w\<lparr>fs := f, trace := trace w @ [Call cmd0 c (fs w) rc],
               err := err w @ failure_report e c capture so se\<rparr>))"
  by (simp add: run_checked_def and_then_def print_err_def raise_def ok_def failure_report_def
      Let_def split: outcome.splits)

lemma failed_append: "failed (w\<lparr>trace := trace w @ cs\<rparr>) \<longleftrightarrow> failed w \<or> list_ex (\<lambda>c. returncode c \<noteq> 0) cs"
  by (simp add: failed_def)

lemma not_failed_all: "\<not> failed w \<longleftrightarrow> list_all (\<lambda>d. returncode d = 0) (trace w)"
  by (simp add: failed_def list_all_iff list_ex_iff)

lemma failed_trace_eq: "trace w' = trace w \<Longrightarrow> failed w' = failed w"
  by (simp add: failed_def)

lemma fail_stopI:
  "(\<And>w r w'. \<not> failed w \<Longrightarrow> m w = (r, w') \<Longrightarrow> failed w' \<Longrightarrow> aborted e (raised r) w')
   \<Longrightarrow> fail_stop e m"
  by (simp add: fail_stop_def)

lemma fail_stopD:
  "fail_stop e m \<Longrightarrow> \<not> failed w \<Longrightarrow> m w = (r, w') \<Longrightarrow> failed w' \<Longrightarrow> aborted e (raised r) w'"
  by (simp add: fail_stop_def)

lemma fail_stop_quiet: "quiet m \<Longrightarrow> fail_stop e m"
  by (rule fail_stopI) (auto dest: quietD failed_trace_eq)

lemma aborted_raised: "aborted e (raised r) w' \<Longrightarrow> \<exists>x. r = Inl x"
  by (cases r) (auto simp: aborted_def raised_def)

lemma raised_Inl: "raised (Inl x :: error + 'a) = raised (Inl x :: error + 'b)"
  by (simp add: raised_def)

lemma fail_stop_and_then:
  assumes m: "fail_stop e m" and k: "\<And>x. fail_stop e (k x)"
  shows "fail_stop e (and_then m k)"
proof (rule fail_stopI)
  fix w r w'
  assume nf: "\<not> failed w" and run: "and_then m k w = (r, w')" and f: "failed w'"
  from and_then_cases [of m w k] show "aborted e (raised r) w'"
  proof (elim disjE exE conjE)
    fix x w1
    assume 1: "m w = (Inl x, w1)" and 2: "and_then m k w = (Inl x, w1)"
    from 2 run have r: "r = Inl x" and w: "w1 = w'" by simp_all
    from m nf 1 f have "aborted e (raised (Inl x :: error + 'a)) w'"
      unfolding w by (rule fail_stopD)
    then show ?thesis
      unfolding r by (simp add: raised_def)
  next
    fix x w1
    assume 1: "m w = (Inr x, w1)" and 2: "and_then m k w = k x w1"
    have nf1: "\<not> failed w1"
    proof
      assume "failed w1"
      with m nf 1 have "aborted e (raised (Inr x :: error + 'a)) w1"
        by (rule fail_stopD)
      then show False
        by (simp add: aborted_def raised_def)
    qed
    from 2 run have "k x w1 = (r, w')" by simp
    with k nf1 show ?thesis
      using f by (rule fail_stopD)
  qed
qed

lemma fail_stop_run_checked: "fail_stop e (run_checked e cmd0 c capture)"
proof (rule fail_stopI)
  fix w r w'
  assume nf: "\<not> failed w" and run: "run_checked e cmd0 c capture w = (r, w')" and f: "failed w'"
  show "aborted e (raised r) w'"
  proof (cases "exec e (trace w) c (fs w)")
    case (NotStarted x)
    with run f nf show ?thesis
      by (simp add: run_checked_eq)
  next
    case (Exited rc so se f1)
    show ?thesis
    proof (cases "rc = 0")
      case True
      with Exited run have "w' = w\<lparr>fs := f1, trace := trace w @ [Call cmd0 c (fs w) rc]\<rparr>"
        by (simp add: run_checked_eq)
      with True f nf show ?thesis
        by (simp add: failed_def)
    next
      case False
      with Exited run have r: "r = Inl (CalledProcessError rc c (if capture then Some so else None)
              (if capture then Some se else None))"
        and w': "w' = w\<lparr>fs := f1, trace := trace w @ [Call cmd0 c (fs w) rc],
               err := err w @ failure_report e c capture so se\<rparr>"
        by (simp_all add: run_checked_eq)
      have "trace w' = trace w @ [Call cmd0 c (fs w) rc]" and "fs w' = f1"
        and "suffix (failure_report e c capture so se) (err w')"
        by (simp_all add: w' suffix_def)
      moreover from nf have "list_all (\<lambda>d. returncode d = 0) (trace w)"
        by (simp add: not_failed_all)
      ultimately show ?thesis
        unfolding aborted_def r raised_def using False Exited
        by (intro exI [of _ "trace w"] exI [of _ cmd0] exI [of _ c] exI [of _ rc]
            exI [of _ so] exI [of _ se] exI [of _ "fs w"] exI [of _ capture]) simp
    qed
  qed
qed

lemmas fail_stop_quiets =
  quiet_ok [THEN fail_stop_quiet] quiet_raise [THEN fail_stop_quiet]
  quiet_pure [THEN fail_stop_quiet]
  quiet_print_out [THEN fail_stop_quiet] quiet_print_err [THEN fail_stop_quiet]
  quiet_fs_try [THEN fail_stop_quiet] quiet_fs_run [THEN fail_stop_quiet]
  quiet_fs_read [THEN fail_stop_quiet]
  quiet_write_arg_file [THEN fail_stop_quiet] quiet_write_file [THEN fail_stop_quiet]
  quiet_bases_to_classpath [THEN fail_stop_quiet] quiet_stage_sources [THEN fail_stop_quiet]
  quiet_overlay_versions [THEN fail_stop_quiet] quiet_find_sources [THEN fail_stop_quiet]

lemma fail_stop_when_exists: "fail_stop e m \<Longrightarrow> fail_stop e (when_exists p m)"
  by (auto simp: fail_stop_def when_exists_def split: if_splits)

lemma fail_stop_run_process: "fail_stop e (run_process e cmd capture)"
  unfolding run_process_def
  by (auto split: sum.splits
      intro!: fail_stop_and_then fail_stop_quiets fail_stop_run_checked)

lemma fail_stop_compile_to_dir:
  "fail_stop e (compile_to_dir g e reg build_dir srcs version classpath java_classpath output)"
  unfolding compile_to_dir_def Let_def
  by (intro fail_stop_and_then fail_stop_run_process fail_stop_quiets)

lemma fail_stop_compile_to_jar:
  "fail_stop e (compile_to_jar g e reg build_dir tmp srcs version classpath java_classpath output)"
  unfolding compile_to_jar_def Let_def
  by (intro fail_stop_and_then fail_stop_run_process fail_stop_compile_to_dir fail_stop_quiets
      fail_stop_when_exists)

lemma fail_stop_compile:
  "(\<And>srcs. quiet (transform srcs)) \<Longrightarrow>
   fail_stop e (compile g e reg jars java_jars dep transform output build_dir version_str)"
  unfolding compile_def
  by (intro fail_stop_and_then fail_stop_compile_to_jar fail_stop_quiets)
    (rule fail_stop_quiet)

lemma fail_stop_compile_standalone: "fail_stop e (compile_standalone g e reg v)"
  unfolding compile_standalone_def by (rule fail_stop_compile) (rule quiet_no_transform)

lemma fail_stop_compile_embeddable: "fail_stop e (compile_embeddable g e reg v)"
  unfolding compile_embeddable_def by (rule fail_stop_compile) (rule quiet_transform_to_embeddable)

lemma fail_stop_compile_many: "fail_stop e (compile_many g e reg vs)"
  by (induction vs)
    (auto intro!: fail_stop_and_then fail_stop_compile_standalone fail_stop_compile_embeddable
      fail_stop_quiets)

lemma fail_stop_main: "fail_stop e (main e reg a)"
  unfolding main_def Let_def
  by (auto split: option.splits intro!: fail_stop_and_then fail_stop_compile_standalone
      fail_stop_compile_embeddable fail_stop_compile_many fail_stop_quiets)

subsection \<open>The processes a part of the run starts\<close>

lemma startsI:
  "(\<And>w x w'. m w = (Inr x, w') \<Longrightarrow>
      \<exists>cs. trace w' = trace w @ cs \<and> map argv cs = argvs \<and>
           list_all (\<lambda>d. returncode d = 0) cs) \<Longrightarrow> starts argvs m"
  by (simp add: starts_def)

lemma startsD:
  "starts argvs m \<Longrightarrow> m w = (Inr x, w') \<Longrightarrow>
   \<exists>cs. trace w' = trace w @ cs \<and> map argv cs = argvs \<and> list_all (\<lambda>d. returncode d = 0) cs"
  by (simp add: starts_def)

lemma starts_quiet: "quiet m \<Longrightarrow> starts [] m"
  by (rule startsI) (auto dest: quietD)

lemma starts_and_then:
  assumes m: "starts as m" and k: "\<And>x. starts bs (k x)"
  shows "starts (as @ bs) (and_then m k)"
proof (rule startsI)
  fix w y w'
  assume "and_then m k w = (Inr y, w')"
  then obtain x w1 where 1: "m w = (Inr x, w1)" and 2: "k x w1 = (Inr y, w')"
    by (auto dest: and_then_InrD)
  from startsD [OF m 1] obtain cs where cs: "trace w1 = trace w @ cs" "map argv cs = as"
    "list_all (\<lambda>d. returncode d = 0) cs"
    by blast
  from startsD [OF k 2] obtain ds where ds: "trace w' = trace w1 @ ds" "map argv ds = bs"
    "list_all (\<lambda>d. returncode d = 0) ds"
    by blast
  from cs ds have "trace w' = trace w @ (cs @ ds)" "map argv (cs @ ds) = as @ bs"
    "list_all (\<lambda>d. returncode d = 0) (cs @ ds)"
    by simp_all
  then show "\<exists>cs. trace w' = trace w @ cs \<and> map argv cs = as @ bs \<and>
      list_all (\<lambda>d. returncode d = 0) cs"
    by blast
qed

lemma starts_quiet_then: "quiet m \<Longrightarrow> (\<And>x. starts bs (k x)) \<Longrightarrow> starts bs (and_then m k)"
  using starts_and_then [of "[]" m bs k] by (simp add: starts_quiet)

lemma starts_then_quiet: "starts as m \<Longrightarrow> (\<And>x. quiet (k x)) \<Longrightarrow> starts as (and_then m k)"
  using starts_and_then [of as m "[]" k] by (simp add: starts_quiet)

lemma starts_run_checked: "starts [cmd0] (run_checked e cmd0 c capture)"
  by (rule startsI) (auto simp: run_checked_eq split: outcome.splits if_splits)

lemma starts_raise: "starts as (raise x)"
  by (simp add: starts_def raise_def)

lemma starts_run_process: "starts [cmd] (run_process e cmd capture)"
  unfolding run_process_def
proof (rule starts_quiet_then [OF quiet_print_out])
  fix x :: unit
  show "starts [cmd]
     (if is_windows e then
        (case map_quote_for_batch cmd of
           Inl x \<Rightarrow> raise x
         | Inr qs \<Rightarrow>
             and_then (print_out (''Converted to Windows command: '' @ join '' '' qs))
               (\<lambda>_. run_checked e cmd (CmdStr (join '' '' qs)) capture))
      else run_checked e cmd (CmdList cmd) capture)"
  proof (cases "is_windows e")
    case False
    then show ?thesis by (simp add: starts_run_checked)
  next
    case True
    show ?thesis
    proof (cases "map_quote_for_batch cmd")
      case (Inl x)
      with True show ?thesis by (simp add: starts_raise)
    next
      case (Inr qs)
      have "starts [cmd] (and_then (print_out (''Converted to Windows command: '' @ join '' '' qs))
               (\<lambda>_. run_checked e cmd (CmdStr (join '' '' qs)) capture))"
        by (rule starts_quiet_then [OF quiet_print_out]) (rule starts_run_checked)
      with True Inr show ?thesis by simp
    qed
  qed
qed

lemma starts_compile_to_dir:
  "starts [[kotlinc g, ''-J-Xmx2G'', ''@'' @ build_dir @ ''/kotlin.args''],
           [javac g, ''@'' @ build_dir @ ''/java.args'']]
     (compile_to_dir g e reg build_dir srcs version classpath java_classpath output)"
proof -
  have "starts ([] @ [[kotlinc g, ''-J-Xmx2G'', ''@'' @ build_dir @ ''/kotlin.args'']] @ [] @
           [[javac g, ''@'' @ build_dir @ ''/java.args'']])
     (compile_to_dir g e reg build_dir srcs version classpath java_classpath output)"
    unfolding compile_to_dir_def Let_def
    by (intro starts_and_then starts_run_process starts_quiet quiet_write_arg_file)
  then show ?thesis by simp
qed

lemma starts_compile_to_jar:
  "starts (target_argvs (kotlinc g) (javac g) output build_dir)
     (compile_to_jar g e reg build_dir (build_dir @ ''/temp_src'') srcs version classpath
        java_classpath output)"
proof -
  have "starts ([] @ [] @
          [[kotlinc g, ''-J-Xmx2G'', ''@'' @ build_dir @ ''/kotlin.args''],
           [javac g, ''@'' @ build_dir @ ''/java.args'']] @
          [jar_argv output (build_dir @ ''/classes'') (build_dir @ ''/temp_src'')] @ [])
     (compile_to_jar g e reg build_dir (build_dir @ ''/temp_src'') srcs version classpath
        java_classpath output)"
    unfolding compile_to_jar_def Let_def
    by (intro starts_and_then starts_run_process starts_compile_to_dir starts_quiet
        quiet_when_exists quiet_fs_try)
  then show ?thesis by (simp add: target_argvs_def)
qed

subsection \<open>Evaluating a sequence\<close>

lemma and_then_bind: "and_then m k w = bind_result (m w) k"
  by (simp add: and_then_def bind_result_def)

lemma bind_result_Inl: "bind_result (Inl x, w') k = (Inl x, w')"
  by (simp add: bind_result_def)

lemma bind_result_Inr: "bind_result (Inr x, w') k = k x w'"
  by (simp add: bind_result_def)

lemma bind_result_cong: "r = r' \<Longrightarrow> bind_result r k = bind_result r' k"
  by simp

lemma and_then_cong: "w = w' \<Longrightarrow> and_then m k w = and_then m k w'"
  by simp

lemmas eval_seq = and_then_bind bind_result_Inl bind_result_Inr




subsection \<open>Removing a tree\<close>




subsection \<open>Paths\<close>




subsection \<open>Creating directories\<close>






subsection \<open>The first process of a run\<close>

lemma growsI: "(\<And>w r w'. m w = (r, w') \<Longrightarrow> prefix (trace w) (trace w')) \<Longrightarrow> grows m"
  by (simp add: grows_def)

lemma growsD: "grows m \<Longrightarrow> m w = (r, w') \<Longrightarrow> prefix (trace w) (trace w')"
  by (simp add: grows_def)

lemma grows_quiet: "quiet m \<Longrightarrow> grows m"
  by (rule growsI) (simp add: quietD)

lemma grows_and_then: "grows m \<Longrightarrow> (\<And>x. grows (k x)) \<Longrightarrow> grows (and_then m k)"
proof (rule growsI)
  fix w r w'
  assume m: "grows m" and k: "\<And>x. grows (k x)" and run: "and_then m k w = (r, w')"
  from and_then_cases [of m w k] show "prefix (trace w) (trace w')"
  proof (elim disjE exE conjE)
    fix e w1
    assume "m w = (Inl e, w1)" "and_then m k w = (Inl e, w1)"
    with run m show ?thesis
      by (auto dest: growsD)
  next
    fix x w1
    assume 1: "m w = (Inr x, w1)" and "and_then m k w = k x w1"
    with run have 2: "k x w1 = (r, w')"
      by simp
    from growsD [OF m 1] growsD [OF k 2] show ?thesis
      by (rule prefix_order.trans)
  qed
qed

lemma run_checked_call:
  "run_checked e cmd0 c capture w = (r, w') \<Longrightarrow>
   trace w' = trace w \<or> (\<exists>rc. trace w' = trace w @ [Call cmd0 c (fs w) rc])"
  by (auto simp: run_checked_eq split: outcome.splits if_splits)

lemma run_process_call:
  assumes "run_process e cmd capture w = (r, w')"
  shows "trace w' = trace w \<or> (\<exists>d. trace w' = trace w @ [d] \<and> argv d = cmd \<and> started_on d = fs w)"
proof -
  have rc: "trace w' = trace w1 \<or>
      (\<exists>d. trace w' = trace w1 @ [d] \<and> argv d = cmd \<and> started_on d = fs w1)"
    if "run_checked e cmd c capture w1 = (r, w')" for c w1
    using run_checked_call [OF that] by auto
  define w1 where "w1 = w\<lparr>out := out w @ [''Running command: '' @ shlex_join cmd]\<rparr>"
  have w1: "fs w1 = fs w" "trace w1 = trace w"
    by (simp_all add: w1_def)
  have 2: "(if is_windows e then
        (case map_quote_for_batch cmd of
           Inl x \<Rightarrow> raise x
         | Inr qs \<Rightarrow>
             and_then (print_out (''Converted to Windows command: '' @ join '' '' qs))
               (\<lambda>_. run_checked e cmd (CmdStr (join '' '' qs)) capture))
      else run_checked e cmd (CmdList cmd) capture) w1 = (r, w')"
    using assms unfolding run_process_def w1_def by (simp add: and_then_def print_out_def)
  show ?thesis
  proof (cases "is_windows e")
    case False
    with 2 rc [of "CmdList cmd" w1] w1 show ?thesis by simp
  next
    case True
    show ?thesis
    proof (cases "map_quote_for_batch cmd")
      case (Inl y)
      with True 2 w1 show ?thesis by (auto simp: raise_def)
    next
      case (Inr qs)
      define w2 where "w2 = w1\<lparr>out := out w1 @ [''Converted to Windows command: '' @ join '' '' qs]\<rparr>"
      have w2: "fs w2 = fs w" "trace w2 = trace w"
        by (simp_all add: w2_def w1)
      have 4: "run_checked e cmd (CmdStr (join '' '' qs)) capture w2 = (r, w')"
        using True Inr 2 unfolding w2_def by (simp add: and_then_def print_out_def)
      with rc [OF 4] w2 show ?thesis by simp
    qed
  qed
qed

lemma grows_run_process: "grows (run_process e cmd capture)"
  by (rule growsI) (use run_process_call in fastforce)



lemma grows_compile_to_dir:
  "grows (compile_to_dir g e reg build_dir srcs version classpath java_classpath output)"
  unfolding compile_to_dir_def Let_def
  by (intro grows_and_then grows_run_process grows_quiet quiet_write_arg_file)






lemma stage_sources_tmp:
  assumes "stage_sources build_dir output w = (Inr tmp, w1)"
  shows "tmp = build_dir @ ''/temp_src''"
proof -
  let ?t = "build_dir @ ''/temp_src''"
  note r0 = assms [unfolded stage_sources_def Let_def]
  from and_then_InrD [OF r0] obtain u1 wa where
    "and_then (fs_run (copytree ''src'' ?t False)) (\<lambda>_.
      and_then (fs_try (makedirs (this_version_dir ?t) False)) (\<lambda>_.
      and_then (fs_try (makedirs (?t @ ''/main/resources/com/github/codeql'') False)) (\<lambda>_.
      and_then (write_file ((?t @ ''/main/resources/com/github/codeql'') @ ''/extractor.name'') output)
        (\<lambda>_. ok ?t)))) wa = (Inr tmp, w1)"
    by blast
  from and_then_InrD [OF this] obtain u2 wb where
    "and_then (fs_try (makedirs (this_version_dir ?t) False)) (\<lambda>_.
      and_then (fs_try (makedirs (?t @ ''/main/resources/com/github/codeql'') False)) (\<lambda>_.
      and_then (write_file ((?t @ ''/main/resources/com/github/codeql'') @ ''/extractor.name'') output)
        (\<lambda>_. ok ?t))) wb = (Inr tmp, w1)"
    by blast
  from and_then_InrD [OF this] obtain u3 wc where
    "and_then (fs_try (makedirs (?t @ ''/main/resources/com/github/codeql'') False)) (\<lambda>_.
      and_then (write_file ((?t @ ''/main/resources/com/github/codeql'') @ ''/extractor.name'') output)
        (\<lambda>_. ok ?t)) wc = (Inr tmp, w1)"
    by blast
  from and_then_InrD [OF this] obtain u4 wd where
    "and_then (write_file ((?t @ ''/main/resources/com/github/codeql'') @ ''/extractor.name'') output)
        (\<lambda>_. ok ?t) wd = (Inr tmp, w1)"
    by blast
  from and_then_InrD [OF this] obtain u5 we where "ok ?t we = (Inr tmp, w1)"
    by blast
  then show ?thesis
    by (simp add: ok_def)
qed





subsection \<open>The processes of a build\<close>

lemma compile_standalone_eq:
  "compile_standalone g e reg v =
     compile g e reg [''kotlin-stdlib-'' @ v, ''kotlin-compiler-'' @ v] [''kotlin-stdlib-'' @ v]
       (kotlin_dependency_folder g) no_transform
       (archive_name Standalone v) (build_dir_of Standalone v) v"
  by (simp add: compile_standalone_def archive_name_def build_dir_of_def kind_name_def)

lemma compile_embeddable_eq:
  "compile_embeddable g e reg v =
     compile g e reg [''kotlin-stdlib-'' @ v, ''kotlin-compiler-embeddable-'' @ v]
       [''kotlin-stdlib-'' @ v] (kotlin_dependency_folder g) (transform_to_embeddable e)
       (archive_name Embeddable v) (build_dir_of Embeddable v) v"
  by (simp add: compile_embeddable_def archive_name_def build_dir_of_def kind_name_def)

lemma starts_quiet_bind:
  assumes m: "quiet m" and k: "\<And>w x w1. m w = (Inr x, w1) \<Longrightarrow> starts bs (k x)"
  shows "starts bs (and_then m k)"
proof (rule startsI)
  fix w y w'
  assume "and_then m k w = (Inr y, w')"
  from and_then_InrD [OF this] obtain x w1 where 1: "m w = (Inr x, w1)" and 2: "k x w1 = (Inr y, w')"
    by blast
  from startsD [OF k [OF 1] 2] quietD [OF m 1]
  show "\<exists>cs. trace w' = trace w @ cs \<and> map argv cs = bs \<and> list_all (\<lambda>d. returncode d = 0) cs"
    by simp
qed

lemma starts_compile:
  assumes q: "\<And>srcs. quiet (transform srcs)"
  shows "starts (target_argvs (kotlinc g) (javac g) archive build_dir)
     (compile g e reg jars java_jars dep transform archive build_dir version_str)"
  unfolding compile_def
proof (rule starts_quiet_then [OF quiet_bases_to_classpath],
    rule starts_quiet_then [OF quiet_bases_to_classpath])
  fix classpath java_classpath
  show "starts (target_argvs (kotlinc g) (javac g) archive build_dir)
     (and_then (stage_sources build_dir archive) (\<lambda>tmp_src_dir.
      and_then (overlay_versions reg tmp_src_dir version_str) (\<lambda>version.
      and_then (find_sources e tmp_src_dir) (\<lambda>srcs.
      and_then (transform srcs) (\<lambda>_.
      and_then (compile_to_jar g e reg build_dir tmp_src_dir srcs version classpath
                  java_classpath archive) (\<lambda>_.
      fs_try (rmtree tmp_src_dir)))))))"
  proof (rule starts_quiet_bind [OF quiet_stage_sources])
    fix w tmp w1
    assume "stage_sources build_dir archive w = (Inr tmp, w1)"
    from stage_sources_tmp [OF this] have tmp: "tmp = build_dir @ ''/temp_src''" .
    show "starts (target_argvs (kotlinc g) (javac g) archive build_dir)
      (and_then (overlay_versions reg tmp version_str) (\<lambda>version.
       and_then (find_sources e tmp) (\<lambda>srcs.
       and_then (transform srcs) (\<lambda>_.
       and_then (compile_to_jar g e reg build_dir tmp srcs version classpath
                  java_classpath archive) (\<lambda>_.
       fs_try (rmtree tmp))))))"
      unfolding tmp
      by (intro starts_quiet_then quiet_overlay_versions quiet_find_sources q
          starts_then_quiet starts_compile_to_jar quiet_fs_try)
  qed
qed

lemma starts_compile_standalone:
  "javac g = ''javac'' \<Longrightarrow>
   starts (build_argvs (kotlinc g) Standalone v) (compile_standalone g e reg v)"
  unfolding compile_standalone_eq build_argvs_def
  using starts_compile [of no_transform g "archive_name Standalone v" "build_dir_of Standalone v"]
  by (simp add: quiet_no_transform)

lemma starts_compile_embeddable:
  "javac g = ''javac'' \<Longrightarrow>
   starts (build_argvs (kotlinc g) Embeddable v) (compile_embeddable g e reg v)"
  unfolding compile_embeddable_eq build_argvs_def
  using starts_compile [of "transform_to_embeddable e" g "archive_name Embeddable v"
      "build_dir_of Embeddable v"]
  by (simp add: quiet_transform_to_embeddable)



subsection \<open>A sample run\<close>

subsection \<open>A build whose processes succeed\<close>































section \<open>The claims\<close>

text \<open>
  C5. If no Kotlin compiler is found on the PATH, the program prints an error and exits
  with status 1 at once: the state it leaves differs from the one it started in by that
  one line on standard error only, so no file was touched and no process was started.
\<close>

theorem missing_compiler_exits_first:
  "which_kotlinc e = None \<Longrightarrow>
   main e reg a w =
     (Inl (SystemExit 1),
      w\<lparr>err := err w @ [''Cannot build the Kotlin extractor: no kotlinc found on your PATH'']\<rparr>)"
  by (rule main_no_kotlinc)

theorem missing_compiler_exits_first_witness:
  "main (sample_env\<lparr>which_kotlinc := None\<rparr>) sample_registry sample_args sample_world =
     (Inl (SystemExit 1),
      sample_world\<lparr>err := [''Cannot build the Kotlin extractor: no kotlinc found on your PATH'']\<rparr>)"
  using missing_compiler_exits_first
    [of "sample_env\<lparr>which_kotlinc := None\<rparr>" sample_registry sample_args sample_world]
  by (simp add: sample_world_def)

text \<open>
  C4, as amended. When a Kotlin compiler is found, a run with
  \<^verbatim>\<open>--single-version-embeddable\<close> and no (or an empty) \<^verbatim>\<open>--single-version\<close> prints the
  usage message and exits with status 1, and leaves the file system and the list of
  started processes as they were. The search for the compiler comes first: without a
  compiler the run ends there, with the other message (the counterexample).
\<close>

theorem usage_error_after_compiler_check:
  "which_kotlinc e = Some k \<Longrightarrow> \<not> truthy (single_version a) \<Longrightarrow> single_version_embeddable a \<Longrightarrow>
   main e reg a w =
     (Inl (SystemExit 1),
      w\<lparr>err := err w @ [''--single-version-embeddable requires --single-version'']\<rparr>)"
  by (rule main_usage)

theorem usage_error_after_compiler_check_witness:
  "which_kotlinc sample_env = Some ''kotlinc'' \<and>
   \<not> truthy (single_version (sample_args\<lparr>single_version_embeddable := True\<rparr>)) \<and>
   main sample_env sample_registry (sample_args\<lparr>single_version_embeddable := True\<rparr>) sample_world =
     (Inl (SystemExit 1),
      sample_world\<lparr>err := [''--single-version-embeddable requires --single-version'']\<rparr>)"
  using usage_error_after_compiler_check
    [of sample_env "''kotlinc''" "sample_args\<lparr>single_version_embeddable := True\<rparr>"
        sample_registry sample_world]
  by (simp add: sample_env_def sample_args_def sample_world_def truthy_def)

theorem usage_error_counterexample:
  "single_version (sample_args\<lparr>single_version_embeddable := True\<rparr>) = None \<and>
   single_version_embeddable (sample_args\<lparr>single_version_embeddable := True\<rparr>) \<and>
   err (snd (main (sample_env\<lparr>which_kotlinc := None\<rparr>) sample_registry
         (sample_args\<lparr>single_version_embeddable := True\<rparr>) sample_world)) =
     [''Cannot build the Kotlin extractor: no kotlinc found on your PATH''] \<and>
   ''--single-version-embeddable requires --single-version'' \<notin>
     set (err (snd (main (sample_env\<lparr>which_kotlinc := None\<rparr>) sample_registry
         (sample_args\<lparr>single_version_embeddable := True\<rparr>) sample_world)))"
  by (simp add: main_no_kotlinc sample_args_def sample_world_def)



text \<open>
  C10. \<open>write_arg_file\<close> writes every argument with each backslash replaced by a
  forward slash: whenever the file could be opened, whatever the arguments and whether
  or not the call then raises, the file it leaves holds no backslash.
\<close>

theorem write_arg_file_no_backslash:
  "open_w arg_file (fs w) = Inr f1 \<Longrightarrow> write_arg_file arg_file as w = (r, w') \<Longrightarrow>
   lookup (fs w') arg_file = Some (File (arg_lines (takeWhile unquoted as))) \<and>
   backslash \<notin> set (arg_lines (takeWhile unquoted as)) \<and>
   (list_all unquoted as \<longrightarrow> takeWhile unquoted as = as) \<and>
   py_replace [backslash] ''/'' a = map (\<lambda>c. if c = backslash then CHR ''/'' else c) a"
  by (auto simp: write_arg_file_eq lookup_update arg_lines_no_backslash py_replace_char
      list_all_iff takeWhile_eq_all_conv [THEN iffD2] split: if_splits)

theorem write_arg_file_no_backslash_witness:
  "open_w ''b/k.args'' [(''b'', Dir)] = Inr [(''b'', Dir), (''b/k.args'', File [])] \<and>
   lookup (fs (snd (write_arg_file ''b/k.args'' [''c:'' @ [backslash] @ ''x'']
       \<lparr>fs = [(''b'', Dir)], out = [], err = [], trace = []\<rparr>))) ''b/k.args'' =
     Some (File ([squote] @ ''c:/x'' @ [squote, newline]))"
  using write_arg_file_no_backslash [of "''b/k.args''"
      "\<lparr>fs = [(''b'', Dir)], out = [], err = [], trace = []\<rparr>"
      "[(''b'', Dir), (''b/k.args'', File [])]" "[''c:'' @ [backslash] @ ''x'']"
      "fst (write_arg_file ''b/k.args'' [''c:'' @ [backslash] @ ''x'']
         \<lparr>fs = [(''b'', Dir)], out = [], err = [], trace = []\<rparr>)"
      "snd (write_arg_file ''b/k.args'' [''c:'' @ [backslash] @ ''x'']
         \<lparr>fs = [(''b'', Dir)], out = [], err = [], trace = []\<rparr>)" "[]"]
  by (simp add: open_w_def ancestors_def isfile_def isdir_def lookup_def dirname_def
      unquoted_def arg_lines_def arg_line_def py_replace_char squote_def backslash_def
      newline_def)



text \<open>
  C9, as amended. When a Kotlin compiler is found and \<^verbatim>\<open>--single-version\<close> is given with
  a value that is not empty, the run is exactly the one build of that version, embeddable
  or standalone as \<^verbatim>\<open>--single-version-embeddable\<close> says, whatever \<^verbatim>\<open>--many\<close> is: the flag
  is ignored and the combination is no usage error. An empty value counts as not given
  (the counterexample: with it and \<^verbatim>\<open>--single-version-embeddable\<close> the run ends in the
  usage error, and nothing is built).
\<close>

theorem single_version_takes_precedence:
  "which_kotlinc e = Some k \<Longrightarrow> single_version a = Some v \<Longrightarrow> v \<noteq> [] \<Longrightarrow>
   main e reg a =
     (if single_version_embeddable a then
        compile_embeddable
          \<lparr>kotlinc = k, javac = ''javac'', kotlin_dependency_folder = dependencies a\<rparr> e reg v
      else
        compile_standalone
          \<lparr>kotlinc = k, javac = ''javac'', kotlin_dependency_folder = dependencies a\<rparr> e reg v) \<and>
   main e reg (a\<lparr>many := b\<rparr>) = main e reg a"
  by (simp add: main_def truthy_def)

theorem single_version_takes_precedence_witness:
  "which_kotlinc sample_env = Some ''kotlinc'' \<and>
   single_version (sample_args\<lparr>single_version := Some ''2'', many := True\<rparr>) = Some ''2'' \<and>
   main sample_env sample_registry (sample_args\<lparr>single_version := Some ''2'', many := True\<rparr>) =
     compile_standalone
       \<lparr>kotlinc = ''kotlinc'', javac = ''javac'', kotlin_dependency_folder = ''d''\<rparr>
       sample_env sample_registry ''2'' \<and>
   main sample_env sample_registry (sample_args\<lparr>single_version := Some ''2'', many := False\<rparr>) =
     main sample_env sample_registry (sample_args\<lparr>single_version := Some ''2'', many := True\<rparr>)"
  using single_version_takes_precedence [of sample_env "''kotlinc''"
      "sample_args\<lparr>single_version := Some ''2'', many := True\<rparr>" "''2''" sample_registry False]
  by (simp add: sample_env_def sample_args_def)

theorem single_version_counterexample:
  "single_version (sample_args\<lparr>single_version := Some [], many := True,
       single_version_embeddable := True\<rparr>) = Some [] \<and>
   main sample_env sample_registry
       (sample_args\<lparr>single_version := Some [], many := True, single_version_embeddable := True\<rparr>)
       sample_world =
     (Inl (SystemExit 1),
      sample_world\<lparr>err := [''--single-version-embeddable requires --single-version'']\<rparr>)"
  using main_usage [of sample_env "''kotlinc''"
      "sample_args\<lparr>single_version := Some [], many := True, single_version_embeddable := True\<rparr>"
      sample_registry sample_world]
  by (simp add: sample_env_def sample_args_def sample_world_def truthy_def)

end
